theory Spec2Isabelle
  imports Complex_Main
begin

section \<open>Backtracking line search (openmdao/solvers/nl\_btlinesearch.py)\<close>

text \<open>
  A shallow embedding of \<^verbatim>\<open>BacktrackingLineSearch\<close> and of the part of the vector
  interface its methods and \<^verbatim>\<open>test_vector.py\<close> call.

  A finite Python float is the real number it denotes. The one floating-point
  product the methods compute themselves, \<^verbatim>\<open>self.alpha *= self.options['rho']\<close>,
  is a parameter \<open>fmul\<close> of the model: it stands for the rounded product of the
  platform. A measured norm is a number or not-a-number. The vector operations are
  those of the spec, which defines them without rounding. Infinities are outside
  the model.
\<close>

subsection \<open>Floating-point values\<close>

text \<open>
  A float that may be not-a-number. A comparison with not-a-number is false, as in
  Python; arithmetic on it gives not-a-number.
\<close>

datatype fnum = Num real | NaN

definition fle :: "fnum \<Rightarrow> fnum \<Rightarrow> bool" where
  "fle x y = (case (x, y) of (Num a, Num b) \<Rightarrow> a \<le> b | _ \<Rightarrow> False)"

definition fscale :: "fnum \<Rightarrow> real \<Rightarrow> fnum" where
  "fscale x c = (case x of Num a \<Rightarrow> Num (a * c) | NaN \<Rightarrow> NaN)"


definition min_subnormal :: real where
  "min_subnormal = 1 / 2 ^ 1074"


text \<open>
  The floating-point product of two doubles whose exact product is a double again:
  nothing is rounded.
\<close>

definition fmul_exact :: "real \<Rightarrow> real \<Rightarrow> real" where
  "fmul_exact a b = a * b"

subsection \<open>Vectors\<close>

text \<open>
  Modelled from the spec: the vector class is not among the sources. Its method
  \<^verbatim>\<open>add_scal_vec(alpha, other)\<close> is the in-place scaled accumulation
  \<^verbatim>\<open>self <- self + alpha * other\<close>, element by element. The receiver is the
  last argument, the result is its new contents. Layouts are not checked.
\<close>

definition add_scal_vec :: "real \<Rightarrow> real list \<Rightarrow> real list \<Rightarrow> real list" where
  "add_scal_vec a other self = map2 (\<lambda>x d. x + a * d) self other"

text \<open>
  Vector objects are referred to by address in a store, so that a clone and its
  original are different objects. Modelled from the spec: \<^verbatim>\<open>_clone\<close> returns
  an independent vector with identical layout and values, \<^verbatim>\<open>set_const\<close> fills
  every element with a value, \<^verbatim>\<open>dot\<close> is the inner product of two vectors of the
  same layout.
\<close>

type_synonym vec_store = "real list list"

definition clone :: "nat \<Rightarrow> vec_store \<Rightarrow> nat \<times> vec_store" where
  "clone v st = (length st, st @ [st ! v])"

definition set_const :: "nat \<Rightarrow> real \<Rightarrow> vec_store \<Rightarrow> vec_store" where
  "set_const v c st = st[v := map (\<lambda>_. c) (st ! v)]"

definition dot :: "nat \<Rightarrow> nat \<Rightarrow> vec_store \<Rightarrow> real" where
  "dot v w st = sum_list (map2 (\<lambda>x y. x * y) (st ! v) (st ! w))"

text \<open>
  The body of \<^verbatim>\<open>test_dot\<close>: the outputs vector of the problem is the object at
  address \<open>outs\<close>; the value handed to \<^verbatim>\<open>assertEqual\<close> and the final store
  are returned.
\<close>

definition test_dot :: "nat \<Rightarrow> real \<Rightarrow> vec_store \<Rightarrow> real \<times> vec_store" where
  "test_dot outs c st =
     (let (new_vec, st1) = clone outs st;
          st2 = set_const new_vec c st1
      in (dot new_vec outs st2, st2))"

subsection \<open>Options\<close>

text \<open>
  Modelled from the spec: the option registry of the base class
  \<^verbatim>\<open>NonlinearSolver\<close> (not among the sources) holds the solver-wide settings:
  the iteration budget and the absolute and relative tolerances.
\<close>

record solver_options =
  maxiter :: int
  atol :: real
  rtol :: real

record options = solver_options +
  solve_subsystems :: bool
  rho :: real
  alpha :: real

text \<open>
  Lines 19 to 26 of \<^verbatim>\<open>__init__\<close>, applied to the options as the base class
  constructor left them: \<^verbatim>\<open>maxiter\<close> is overwritten, the other four are declared
  with their values (\<^verbatim>\<open>rtol\<close> anew).
\<close>

definition init_options :: "solver_options \<Rightarrow> options" where
  "init_options base =
     \<lparr>maxiter = 5, atol = atol base, rtol = 9 / 10,
      solve_subsystems = True, rho = 1 / 2, alpha = 1\<rparr>"

subsection \<open>System and solver state\<close>

text \<open>
  The system holds the outputs vector \<^verbatim>\<open>_outputs\<close> and the update vector
  \<^verbatim>\<open>_vectors['output']['']\<close>, two distinct objects, and whatever else
  (residuals, inputs) in \<open>rest\<close>.
\<close>

record 'r system =
  outputs :: "real list"
  update :: "real list"
  rest :: 'r

text \<open>
  The calls a method makes on its collaborators, in order. \<open>SolveSubsystems\<close> is
  the sub-solve operation of the system interface.
\<close>

datatype call = GetNorm | AddScalVec real | SolveSubsystems

datatype error = AttributeError | ConfigurationError

text \<open>
  The solver object: its options, the attribute \<^verbatim>\<open>self.alpha\<close> (absent until
  \<^verbatim>\<open>_iter_initialize\<close> assigns it), its system, and the log of collaborator
  calls.
\<close>

record 'r solver =
  options :: options
  alpha :: "real option"
  system :: "'r system"
  calls :: "call list"

text \<open>
  \<^verbatim>\<open>__init__\<close>: the base class constructor has run and left the options
  \<open>base\<close>; the options are then set up as above. \<^verbatim>\<open>self.alpha\<close> is not assigned
  and no call has been made. The system the solver works on is attached at once.
\<close>

definition BacktrackingLineSearch_init :: "solver_options \<Rightarrow> 'r system \<Rightarrow> 'r solver" where
  "BacktrackingLineSearch_init base sys =
     \<lparr>options = init_options base, alpha = None, system = sys, calls = []\<rparr>"

text \<open>
  Modelled from the spec: \<^verbatim>\<open>_iter_get_norm\<close> belongs to the base class, which is
  not among the sources. It re-evaluates the residual at the current outputs and
  returns its norm; the residual norm of the system is a parameter \<open>rn\<close>, which
  reads the system and gives the norm (possibly not-a-number) and the new \<open>rest\<close>.
\<close>

type_synonym 'r residual_norm = "'r system \<Rightarrow> fnum \<times> 'r"

definition iter_get_norm :: "'r residual_norm \<Rightarrow> 'r solver \<Rightarrow> fnum \<times> 'r solver" where
  "iter_get_norm rn s =
     (let (n, r) = rn (system s)
      in (n, s\<lparr>system := (system s)\<lparr>rest := r\<rparr>, calls := calls s @ [GetNorm]\<rparr>))"

text \<open>The statement \<^verbatim>\<open>u.add_scal_vec(a, du)\<close> of both methods.\<close>

definition u_add_scal_vec :: "real \<Rightarrow> 'r solver \<Rightarrow> 'r solver" where
  "u_add_scal_vec a s =
     s\<lparr>system := (system s)\<lparr>outputs := add_scal_vec a (update (system s)) (outputs (system s))\<rparr>,
       calls := calls s @ [AddScalVec a]\<rparr>"

text \<open>
  \<^verbatim>\<open>_iter_initialize\<close>, lines 29 to 59. The test \<^verbatim>\<open>norm0 == 0.0\<close> holds for
  a zero of either sign and fails for not-a-number.
\<close>

definition iter_initialize :: "'r residual_norm \<Rightarrow> 'r solver \<Rightarrow> (fnum \<times> fnum) \<times> 'r solver" where
  "iter_initialize rn s =
     (let a = options.alpha (options s);
          s1 = s\<lparr>alpha := Some a\<rparr>;
          (norm0, s2) = iter_get_norm rn s1;
          norm0 = (if norm0 = Num 0 then Num 1 else norm0);
          s3 = u_add_scal_vec a s2;
          (norm, s4) = iter_get_norm rn s3
      in ((norm0, norm), s4))"

text \<open>
  \<^verbatim>\<open>_iter_execute\<close>, lines 61 to 69. Reading \<^verbatim>\<open>self.alpha\<close> before it is
  assigned raises. Negation is exact; the product of line 68 is the floating-point
  product \<open>fmul\<close>.
\<close>

definition iter_execute :: "(real \<Rightarrow> real \<Rightarrow> real) \<Rightarrow> 'r solver \<Rightarrow> error + 'r solver" where
  "iter_execute fmul s =
     (case alpha s of
        None \<Rightarrow> Inl AttributeError
      | Some a \<Rightarrow>
          (let s1 = u_add_scal_vec (- a) s;
               a' = fmul a (rho (options s1));
               s2 = s1\<lparr>alpha := Some a'\<rparr>
           in Inr (u_add_scal_vec a' s2)))"

subsection \<open>The base loop\<close>

text \<open>
  Modelled from the spec: the iterate-until-converged loop of the base class
  \<^verbatim>\<open>NonlinearSolver\<close> is not among the sources. A run is converged when
  \<open>norm \<le> norm0 * rtol\<close> or the absolute floor is reached; it has diverged when
  the norm is not a number.
\<close>

definition converged :: "options \<Rightarrow> fnum \<Rightarrow> fnum \<Rightarrow> bool" where
  "converged opts norm0 nrm =
     (fle nrm (fscale norm0 (rtol opts)) \<or> fle nrm (Num (atol opts)))"


text \<open>
  Modelled from the spec: the state at the \<open>k\<close>-th trial point and the norm
  measured there. The initializer runs once; every refinement is one call of
  \<^verbatim>\<open>_iter_execute\<close>, after which the base loop measures the norm again.
\<close>

fun trial ::
  "'r residual_norm \<Rightarrow> (real \<Rightarrow> real \<Rightarrow> real) \<Rightarrow> 'r solver \<Rightarrow> nat
   \<Rightarrow> error + (fnum \<times> 'r solver)" where
  "trial rn fmul s 0 = (let ((norm0, nrm), s1) = iter_initialize rn s in Inr (nrm, s1))"
| "trial rn fmul s (Suc k) =
     (case trial rn fmul s k of
        Inl e \<Rightarrow> Inl e
      | Inr (nrm, s1) \<Rightarrow>
          (case iter_execute fmul s1 of
             Inl e \<Rightarrow> Inl e
           | Inr s2 \<Rightarrow> Inr (iter_get_norm rn s2)))"

definition trial_norm ::
  "'r residual_norm \<Rightarrow> (real \<Rightarrow> real \<Rightarrow> real) \<Rightarrow> 'r solver \<Rightarrow> nat \<Rightarrow> fnum option" where
  "trial_norm rn fmul s k =
     (case trial rn fmul s k of Inl e \<Rightarrow> None | Inr (nrm, s1) \<Rightarrow> Some nrm)"




text \<open>
  The norm \<open>norm0\<close> the initializer returns, and whether the \<open>k\<close>-th trial point
  passes the convergence test against it.
\<close>

definition initial_norm :: "'r residual_norm \<Rightarrow> 'r solver \<Rightarrow> fnum" where
  "initial_norm rn s = fst (fst (iter_initialize rn s))"

definition trial_converged ::
  "'r residual_norm \<Rightarrow> (real \<Rightarrow> real \<Rightarrow> real) \<Rightarrow> 'r solver \<Rightarrow> nat \<Rightarrow> bool" where
  "trial_converged rn fmul s k =
     (case trial_norm rn fmul s k of
        None \<Rightarrow> False
      | Some nrm \<Rightarrow> converged (options s) (initial_norm rn s) nrm)"





subsection \<open>Fixtures\<close>

text \<open>
  A one-variable system at \<open>u = 0\<close> with update \<open>du = 1\<close> whose residual norm is
  \<open>|1 - u / 20|\<close>, and a line search constructed for it with the default options.
\<close>

definition ex_rn :: "unit residual_norm" where
  "ex_rn sys = (Num \<bar>1 - sum_list (outputs sys) / 20\<bar>, ())"

definition ex_system :: "unit system" where
  "ex_system = \<lparr>outputs = [0], update = [1], rest = ()\<rparr>"

definition ex_base :: solver_options where
  "ex_base = \<lparr>maxiter = 10, atol = 0, rtol = 0\<rparr>"

definition ex_solver :: "unit solver" where
  "ex_solver = BacktrackingLineSearch_init ex_base ex_system"

text \<open>A system whose residual norm is not a number wherever it is measured.\<close>

definition ex_rn_nan :: "unit residual_norm" where
  "ex_rn_nan sys = (NaN, ())"

text \<open>The same line search with the initial step scale set to zero.\<close>

definition ex_solver_zero :: "unit solver" where
  "ex_solver_zero = ex_solver\<lparr>options := (options ex_solver)\<lparr>options.alpha := 0\<rparr>\<rparr>"

text \<open>
  The same line search with the smallest positive double as initial step scale and
  \<open>rho = 0.75\<close>.
\<close>

definition ex_solver_tiny :: "unit solver" where
  "ex_solver_tiny =
     ex_solver\<lparr>options := (options ex_solver)\<lparr>rho := 3 / 4, options.alpha := min_subnormal\<rparr>\<rparr>"


section \<open>Auxiliary facts\<close>


lemma iter_initialize_state:
  "\<exists>n0 n1 s1. iter_initialize rn s = ((n0, n1), s1)
     \<and> alpha s1 = Some (options.alpha (options s))
     \<and> options s1 = options s
     \<and> update (system s1) = update (system s)
     \<and> outputs (system s1) =
         add_scal_vec (options.alpha (options s)) (update (system s)) (outputs (system s))"
  by (simp add: iter_initialize_def iter_get_norm_def u_add_scal_vec_def Let_def
      split: prod.splits)

lemma refine_state:
  assumes "alpha s1 = Some a"
  shows "\<exists>s2 nrm s3. iter_execute fmul s1 = Inr s2 \<and> iter_get_norm rn s2 = (nrm, s3)
     \<and> alpha s3 = Some (fmul a (rho (options s1)))
     \<and> options s3 = options s1
     \<and> update (system s3) = update (system s1)
     \<and> outputs (system s3) =
         add_scal_vec (fmul a (rho (options s1))) (update (system s1))
           (add_scal_vec (- a) (update (system s1)) (outputs (system s1)))"
  using assms
  by (simp add: iter_execute_def iter_get_norm_def u_add_scal_vec_def Let_def
      split: prod.splits)

lemma trial_defined:
  "\<exists>nrm s' a. trial rn fmul s k = Inr (nrm, s')
     \<and> alpha s' = Some a
     \<and> options s' = options s
     \<and> update (system s') = update (system s)"
proof (induction k)
  case 0
  from iter_initialize_state [of rn s] show ?case by auto
next
  case (Suc k)
  then obtain nrm s1 a where t: "trial rn fmul s k = Inr (nrm, s1)"
    and a: "alpha s1 = Some a"
    and o: "options s1 = options s" and u: "update (system s1) = update (system s)"
    by blast
  from refine_state [OF a, of fmul rn] obtain s2 nrm' s3 where
    "iter_execute fmul s1 = Inr s2" "iter_get_norm rn s2 = (nrm', s3)"
    "alpha s3 = Some (fmul a (rho (options s1)))"
    "options s3 = options s1" "update (system s3) = update (system s1)"
    by blast
  with t o u show ?case by simp
qed






lemma sum_list_const_mult:
  "sum_list (map2 (\<lambda>x y. x * y) (map (\<lambda>_. c) v) v) = c * sum_list (v :: real list)"
  by (induction v) (simp_all add: algebra_simps)



lemmas ex_defs = ex_rn_def ex_system_def ex_base_def ex_solver_def ex_solver_zero_def
  ex_solver_tiny_def BacktrackingLineSearch_init_def init_options_def

lemmas step_defs = iter_initialize_def iter_execute_def iter_get_norm_def u_add_scal_vec_def
  add_scal_vec_def Let_def










lemma ex_nan_norms: "trial_norm ex_rn_nan fmul s k = Some NaN"
proof (cases k)
  case 0
  then show ?thesis
    by (simp add: trial_norm_def iter_initialize_def iter_get_norm_def ex_rn_nan_def Let_def)
next
  case (Suc j)
  from trial_defined [of ex_rn_nan fmul s j] obtain nrm s1 a where
    t: "trial ex_rn_nan fmul s j = Inr (nrm, s1)" and a: "alpha s1 = Some a" by blast
  from refine_state [OF a, of fmul ex_rn_nan] obtain s2 where
    "iter_execute fmul s1 = Inr s2" by blast
  with t Suc show ?thesis
    by (simp add: trial_norm_def iter_get_norm_def ex_rn_nan_def)
qed

lemma ex_nan_not_converged: "\<forall>j\<le>n. \<not> trial_converged ex_rn_nan fmul s j"
  by (simp add: trial_converged_def ex_nan_norms converged_def fle_def)


section \<open>Properties\<close>

text \<open>
  C1. For every solver state, \<^verbatim>\<open>_iter_initialize\<close> sets the step scale to
  \<^verbatim>\<open>options['alpha']\<close>, measures the residual norm before the step (1 stands in
  for a measured 0), applies \<^verbatim>\<open>u += alpha * du\<close> to the outputs, measures the
  residual norm after the step and returns both norms. The calls it makes are a
  norm measurement, one scaled accumulation with the scale \<open>alpha\<close>, and a norm
  measurement, in this order.
\<close>

theorem iter_initialize_sequence:
  "iter_initialize rn s =
     (let a = options.alpha (options s);
          u = outputs (system s);
          du = update (system s);
          (m0, r0) = rn (system s);
          u1 = add_scal_vec a du u;
          (m1, r1) = rn \<lparr>outputs = u1, update = du, rest = r0\<rparr>
      in ((if m0 = Num 0 then Num 1 else m0, m1),
          \<lparr>options = options s, alpha = Some a,
           system = \<lparr>outputs = u1, update = du, rest = r1\<rparr>,
           calls = calls s @ [GetNorm, AddScalVec a, GetNorm]\<rparr>))"
  by (cases s, cases "system s")
     (simp add: iter_initialize_def iter_get_norm_def u_add_scal_vec_def Let_def split: prod.splits)

text \<open>
  The sequence on the fixture: the norm is 1 at \<open>u = 0\<close> and 19/20 after the
  full step.
\<close>

theorem iter_initialize_sequence_witness:
  "iter_initialize ex_rn ex_solver =
     ((Num 1, Num (19 / 20)),
      \<lparr>options = options ex_solver, alpha = Some 1,
       system = \<lparr>outputs = [1], update = [1], rest = ()\<rparr>,
       calls = [GetNorm, AddScalVec 1, GetNorm]\<rparr>)"
  using iter_initialize_sequence [of ex_rn ex_solver]
  by (simp add: ex_defs add_scal_vec_def)

text \<open>
  C2. For every solver state with a stored step scale \<open>a\<close>,
  \<^verbatim>\<open>_iter_execute\<close> undoes the previous trial step with the scale \<open>- a\<close>,
  shrinks the scale to the product of \<open>a\<close> and \<open>rho\<close> and applies the step again
  with the new scale, in this order and with the same update vector.
\<close>

theorem iter_execute_sequence:
  "alpha s = Some a \<Longrightarrow>
   \<exists>s'. iter_execute fmul s = Inr s'
     \<and> outputs (system s') =
         add_scal_vec (fmul a (rho (options s))) (update (system s))
           (add_scal_vec (- a) (update (system s)) (outputs (system s)))
     \<and> alpha s' = Some (fmul a (rho (options s)))
     \<and> update (system s') = update (system s)
     \<and> calls s' = calls s @ [AddScalVec (- a), AddScalVec (fmul a (rho (options s)))]"
  by (simp add: iter_execute_def u_add_scal_vec_def Let_def)

text \<open>
  The refinement step after the initializer on the fixture: the outputs move from
  1 to 1/2.
\<close>

theorem iter_execute_sequence_witness:
  "alpha (snd (iter_initialize ex_rn ex_solver)) = Some 1
   \<and> map_sum id (\<lambda>s'. (outputs (system s'), alpha s', update (system s'), calls s'))
        (iter_execute fmul_exact (snd (iter_initialize ex_rn ex_solver)))
      = Inr ([1 / 2], Some (1 / 2), [1],
             [GetNorm, AddScalVec 1, GetNorm, AddScalVec (- 1), AddScalVec (1 / 2)])"
proof -
  have h: "alpha (snd (iter_initialize ex_rn ex_solver)) = Some 1"
    by (simp add: ex_defs step_defs)
  from iter_execute_sequence [OF h, of fmul_exact] obtain s' where
    "iter_execute fmul_exact (snd (iter_initialize ex_rn ex_solver)) = Inr s'"
    "outputs (system s') =
       add_scal_vec (fmul_exact 1 (rho (options (snd (iter_initialize ex_rn ex_solver)))))
         (update (system (snd (iter_initialize ex_rn ex_solver))))
         (add_scal_vec (- 1) (update (system (snd (iter_initialize ex_rn ex_solver))))
            (outputs (system (snd (iter_initialize ex_rn ex_solver)))))"
    "alpha s' = Some (fmul_exact 1 (rho (options (snd (iter_initialize ex_rn ex_solver)))))"
    "update (system s') = update (system (snd (iter_initialize ex_rn ex_solver)))"
    "calls s' = calls (snd (iter_initialize ex_rn ex_solver))
       @ [AddScalVec (- 1),
          AddScalVec (fmul_exact 1 (rho (options (snd (iter_initialize ex_rn ex_solver)))))]"
    by blast
  with h show ?thesis by (simp add: ex_defs step_defs fmul_exact_def)
qed




text \<open>
  C4. The \<open>norm0\<close> that \<^verbatim>\<open>_iter_initialize\<close> returns is never zero: it is the
  measured norm, or 1 when the measured norm is 0.
\<close>

theorem norm0_never_zero:
  "fst (fst (iter_initialize rn s))
     = (if fst (rn (system s)) = Num 0 then Num 1 else fst (rn (system s)))
   \<and> fst (fst (iter_initialize rn s)) \<noteq> Num 0"
  by (simp add: iter_initialize_def iter_get_norm_def Let_def split: prod.splits)

text \<open>
  A system whose residual norm is 0: the initializer returns 1.
\<close>

theorem norm0_never_zero_witness:
  "fst (fst (iter_initialize (\<lambda>sys. (Num 0, ())) ex_solver)) = Num 1"
  using norm0_never_zero [of "\<lambda>sys. (Num 0, ())" ex_solver] by simp




text \<open>
  C6. With \<^verbatim>\<open>solve_subsystems\<close> enabled, as it is by default, the initializer
  followed by one refinement step calls the norm measurement and the scaled
  accumulation only: the sub-solve operation is not among the calls.
\<close>

theorem solve_subsystems_not_consulted:
  "solve_subsystems (options ex_solver)
   \<and> calls (snd (iter_initialize ex_rn ex_solver)) = [GetNorm, AddScalVec 1, GetNorm]
   \<and> map_sum id calls (iter_execute fmul_exact (snd (iter_initialize ex_rn ex_solver)))
       = Inr [GetNorm, AddScalVec 1, GetNorm, AddScalVec (- 1), AddScalVec (1 / 2)]
   \<and> SolveSubsystems \<notin> set [GetNorm, AddScalVec 1, GetNorm, AddScalVec (- 1), AddScalVec (1 / 2)]"
  by (simp add: ex_defs step_defs fmul_exact_def)

text \<open>
  C7. For vectors of the same layout, \<^verbatim>\<open>add_scal_vec(-alpha, du)\<close> followed by
  \<^verbatim>\<open>add_scal_vec(alpha, du)\<close> with the same \<open>alpha\<close> leaves the vector as it
  was.
\<close>

theorem add_scal_vec_undo_reapply:
  assumes "length du = length u"
  shows "add_scal_vec a du (add_scal_vec (- a) du u) = u"
  using assms by (induction du u rule: list_induct2) (simp_all add: add_scal_vec_def)

text \<open>
  Undoing and reapplying half of \<open>[3, 4]\<close> on \<open>[1, 2]\<close>.
\<close>

theorem add_scal_vec_undo_reapply_witness:
  "length [3, 4 :: real] = length [1, 2 :: real]
   \<and> add_scal_vec (1 / 2) [3, 4] (add_scal_vec (- (1 / 2)) [3, 4] [1, 2]) = [1, 2]"
proof -
  have h: "length [3, 4 :: real] = length [1, 2 :: real]" by simp
  from add_scal_vec_undo_reapply [OF h, of "1 / 2"] h show ?thesis by simp
qed

text \<open>
  C8. A freshly constructed BacktrackingLineSearch has the option values
  maxiter = 5, solve\_subsystems = True, rho = 0.5, alpha = 1.0 and rtol = 0.9,
  whatever the base class constructor set.
\<close>

theorem init_option_defaults:
  "maxiter (options (BacktrackingLineSearch_init base sys)) = 5
   \<and> solve_subsystems (options (BacktrackingLineSearch_init base sys)) = True
   \<and> rho (options (BacktrackingLineSearch_init base sys)) = 1 / 2
   \<and> options.alpha (options (BacktrackingLineSearch_init base sys)) = 1
   \<and> rtol (options (BacktrackingLineSearch_init base sys)) = 9 / 10"
  by (simp add: BacktrackingLineSearch_init_def init_options_def)

text \<open>
  C9. Cloning a vector, filling the clone with the constant \<open>c\<close> and taking the
  dot product of the clone with the original gives \<open>c\<close> times the sum of the
  original's elements, and leaves the original as it was; for the vector
  \<open>[1, 2]\<close> and \<open>c = 3\<close> the result is 9.
\<close>

theorem clone_set_const_dot:
  assumes "v < length st"
  shows "fst (test_dot v c st) = c * sum_list (st ! v)
         \<and> snd (test_dot v c st) ! v = st ! v
         \<and> fst (test_dot 0 3 [[1, 2]]) = 9"
  using assms
  by (simp add: test_dot_def clone_def set_const_def dot_def nth_append sum_list_const_mult)

text \<open>
  The test as written: the store holds the outputs \<open>[1, 2]\<close>, the clone is
  filled with 3.
\<close>

theorem clone_set_const_dot_witness:
  "(0 :: nat) < length [[1, 2 :: real]]
   \<and> test_dot 0 3 [[1, 2]] = (9, [[1, 2], [3, 3]])"
proof -
  have h: "(0 :: nat) < length [[1, 2 :: real]]" by simp
  from clone_set_const_dot [OF h, of 3] h show ?thesis
    by (simp add: test_dot_def clone_def set_const_def dot_def)
qed

text \<open>
  C10. \<^verbatim>\<open>_iter_execute\<close> changes the outputs vector and the step scale only:
  the options, the update vector and the rest of the system are as before, and the
  two calls it makes are scaled accumulations, not norm measurements. Called before
  the step scale is stored, it raises and changes nothing.
\<close>

theorem iter_execute_frame:
  "case iter_execute fmul s of
     Inl e \<Rightarrow> e = AttributeError \<and> alpha s = None
   | Inr s' \<Rightarrow>
       s' = s\<lparr>alpha := alpha s',
              system := (system s)\<lparr>outputs := outputs (system s')\<rparr>,
              calls := calls s'\<rparr>
       \<and> options s' = options s
       \<and> update (system s') = update (system s)
       \<and> rest (system s') = rest (system s)
       \<and> (\<exists>a b. calls s' = calls s @ [AddScalVec a, AddScalVec b])"
  by (simp add: iter_execute_def u_add_scal_vec_def Let_def split: option.splits)

text \<open>
  The refinement step after the initializer on the fixture.
\<close>

theorem iter_execute_frame_witness:
  "map_sum id (\<lambda>s'. (options s', update (system s'), rest (system s'), calls s'))
     (iter_execute fmul_exact (snd (iter_initialize ex_rn ex_solver)))
   = Inr (options ex_solver, [1], (),
          [GetNorm, AddScalVec 1, GetNorm, AddScalVec (- 1), AddScalVec (1 / 2)])"
  using iter_execute_frame [where fmul = fmul_exact and s = "snd (iter_initialize ex_rn ex_solver)"]
  by (simp add: ex_defs step_defs fmul_exact_def)

end
